theory Spec2Isabelle
  imports Main
begin

section \<open>Strings of the source language\<close>

text \<open>
  A Python \<^verbatim>\<open>str\<close> is a sequence of Unicode code points, so the model uses lists of
  naturals; \<open>u\<close> turns an ASCII literal into such a list. The emoji of the replies are
  written as their code points.
\<close>

type_synonym ustr = "nat list"

definition u :: "string \<Rightarrow> ustr" where
  "u s = map of_char s"

text \<open>
  \<^verbatim>\<open>str.strip()\<close> without argument removes the code points for which
  \<^verbatim>\<open>str.isspace\<close> holds from both ends.
\<close>

definition py_isspace :: "nat \<Rightarrow> bool" where
  "py_isspace c =
     (c \<in> set [0x9, 0xA, 0xB, 0xC, 0xD, 0x1C, 0x1D, 0x1E, 0x1F, 0x20, 0x85, 0xA0, 0x1680,
        0x2000, 0x2001, 0x2002, 0x2003, 0x2004, 0x2005, 0x2006, 0x2007, 0x2008, 0x2009,
        0x200A, 0x2028, 0x2029, 0x202F, 0x205F, 0x3000])"

definition py_strip :: "ustr \<Rightarrow> ustr" where
  "py_strip s = rev (dropWhile py_isspace (rev (dropWhile py_isspace s)))"

text \<open>
  \<^verbatim>\<open>str.lower()\<close>, code point by code point. The letters A to Z go to a to z. Two code
  points outside ASCII have a lowercase form that contains an ASCII letter: U+212A (the
  Kelvin sign) becomes k, and U+0130 becomes i followed by U+0307, the only code point
  whose lowercase form is longer than one code point. Every other code point outside
  ASCII has a lowercase form outside ASCII; the model leaves those unchanged, which does
  not change the outcome of any comparison of the source, since the lowered text is only
  ever compared with ASCII literals.
\<close>

definition lower_cp :: "nat \<Rightarrow> ustr" where
  "lower_cp c =
     (if 0x41 \<le> c \<and> c \<le> 0x5A then [c + 32]
      else if c = 0x130 then [0x69, 0x307]
      else if c = 0x212A then [0x6B]
      else [c])"

definition py_lower :: "ustr \<Rightarrow> ustr" where
  "py_lower s = concat (map lower_cp s)"

definition startswith :: "ustr \<Rightarrow> ustr \<Rightarrow> bool" where
  "startswith s p = (take (length p) s = p)"

text \<open>\<^verbatim>\<open>sep.join(parts)\<close>.\<close>

fun join :: "ustr \<Rightarrow> ustr list \<Rightarrow> ustr" where
  "join sep [] = []"
| "join sep [x] = x"
| "join sep (x # y # ys) = x @ sep @ join sep (y # ys)"

text \<open>The decimal text of an integer, as an f-string renders it.\<close>

fun digits :: "nat \<Rightarrow> ustr" where
  "digits n = (if n < 10 then [48 + n] else digits (n div 10) @ [48 + n mod 10])"

declare digits.simps [simp del]

definition str_int :: "int \<Rightarrow> ustr" where
  "str_int i = (if i < 0 then 0x2D # digits (nat (- i)) else digits (nat i))"

section \<open>Values, exceptions and the outside world\<close>

text \<open>
  What \<^verbatim>\<open>resp.json()\<close> returns: \<^verbatim>\<open>None\<close>, a bool, an int, a str, a list or a
  dict with string keys (kept as an association list; \<open>map_of\<close> is the lookup).
  Floating-point numbers are left out.
\<close>

datatype json =
    JNull
  | JBool bool
  | JInt int
  | JStr ustr
  | JArr "json list"
  | JObj "(ustr \<times> json) list"

text \<open>
  The exceptions that can travel through the handlers. \<open>KeyError\<close> carries the missing
  key; \<open>OtherError\<close> stands for any other exception class of a library, with a label.
\<close>

datatype exn =
    SympifyError
  | KeyError ustr
  | TypeError
  | AttributeError
  | IndexError
  | ClientError
  | JSONDecodeError
  | OtherError ustr

text \<open>
  The outcome of \<^verbatim>\<open>session.get\<close>: the request fails in transport, or a response
  arrives with its status and with what \<^verbatim>\<open>resp.json()\<close> does on its body (a value,
  or the exception raised for a body that is not JSON).
\<close>

datatype http_result =
    Transport_error exn
  | Response int "exn + json"

text \<open>
  Everything the handlers reach outside the module is a field of the environment:
  \<^item> \<open>sympify_evalf\<close>: \<^verbatim>\<open>sympify(expression).evalf()\<close> of the sympy library, giving the
    text the f-string renders for the result, or the exception raised;
  \<^item> \<open>search_get\<close> and \<open>joke_get\<close>: the two HTTP GET requests;
  \<^item> \<open>predict\<close>: the prediction service, giving the list of predictions (each a
    dictionary with string values) or the exception raised;
  \<^item> \<open>py_repr\<close>: the interpreter's rendering of lists and dictionaries;
  \<^item> \<open>exn_text\<close>: the interpreter's \<^verbatim>\<open>str(e)\<close> of an exception.
\<close>

record env =
  sympify_evalf :: "ustr \<Rightarrow> exn + ustr"
  search_get :: "ustr \<Rightarrow> http_result"
  joke_get :: "http_result"
  predict :: "ustr \<Rightarrow> exn + (ustr \<times> ustr) list list"
  py_repr :: "json \<Rightarrow> ustr"
  exn_text :: "exn \<Rightarrow> ustr"

text \<open>\<^verbatim>\<open>f"{v}"\<close> for a value \<open>v\<close>.\<close>

fun py_format :: "env \<Rightarrow> json \<Rightarrow> ustr" where
  "py_format w JNull = u ''None''"
| "py_format w (JBool b) = (if b then u ''True'' else u ''False'')"
| "py_format w (JInt i) = str_int i"
| "py_format w (JStr s) = s"
| "py_format w v = py_repr w v"

text \<open>\<^verbatim>\<open>not v\<close> is \<open>\<not> truthy v\<close>.\<close>

fun truthy :: "json \<Rightarrow> bool" where
  "truthy JNull = False"
| "truthy (JBool b) = b"
| "truthy (JInt i) = (i \<noteq> 0)"
| "truthy (JStr s) = (s \<noteq> [])"
| "truthy (JArr xs) = (xs \<noteq> [])"
| "truthy (JObj kvs) = (kvs \<noteq> [])"

text \<open>\<^verbatim>\<open>d.get(key)\<close> and \<^verbatim>\<open>d.get(key, default)\<close>: only a dictionary has the method.\<close>

fun dict_get :: "json \<Rightarrow> ustr \<Rightarrow> json \<Rightarrow> exn + json" where
  "dict_get (JObj kvs) k d = (case map_of kvs k of None \<Rightarrow> Inr d | Some v \<Rightarrow> Inr v)"
| "dict_get v k d = Inl AttributeError"

text \<open>\<^verbatim>\<open>v[key]\<close> with a string key.\<close>

fun subscript :: "json \<Rightarrow> ustr \<Rightarrow> exn + json" where
  "subscript (JObj kvs) k = (case map_of kvs k of None \<Rightarrow> Inl (KeyError k) | Some v \<Rightarrow> Inr v)"
| "subscript v k = Inl TypeError"

text \<open>\<^verbatim>\<open>for item in v\<close>: a list gives its elements, a str its characters, a dict its keys.\<close>

fun iterate :: "json \<Rightarrow> exn + json list" where
  "iterate (JArr xs) = Inr xs"
| "iterate (JStr s) = Inr (map (\<lambda>c. JStr [c]) s)"
| "iterate (JObj kvs) = Inr (map (\<lambda>kv. JStr (fst kv)) kvs)"
| "iterate v = Inl TypeError"

section \<open>The handlers\<close>

text \<open>
  \<^verbatim>\<open>chat_with_vertex_ai\<close>: the whole body is inside \<^verbatim>\<open>try\<close> with
  \<^verbatim>\<open>except Exception\<close>, so every outcome is a returned string. Indexing an empty list
  of predictions raises inside the \<^verbatim>\<open>try\<close> as well.
\<close>

definition vertex_error :: "env \<Rightarrow> exn \<Rightarrow> ustr" where
  "vertex_error w e = [0x26A0, 0xFE0F] @ u '' Vertex AI error: '' @ exn_text w e"

definition no_response_text :: ustr where
  "no_response_text = [0x1F916] @ u '' No response received.''"

definition chat_with_vertex_ai :: "env \<Rightarrow> ustr \<Rightarrow> ustr" where
  "chat_with_vertex_ai w prompt =
     (case predict w prompt of
        Inl e \<Rightarrow> vertex_error w e
      | Inr predictions \<Rightarrow>
          (case predictions of
             [] \<Rightarrow> vertex_error w IndexError
           | p # _ \<Rightarrow>
               (case map_of p (u ''content'') of
                  None \<Rightarrow> no_response_text
                | Some content \<Rightarrow> content)))"

text \<open>
  \<^verbatim>\<open>google_search\<close> has no \<^verbatim>\<open>try\<close>: an exception of the request, of
  \<^verbatim>\<open>resp.json()\<close>, of \<^verbatim>\<open>data.get\<close>, of the iteration or of \<^verbatim>\<open>item['title']\<close>
  leaves the function. The f-string reads the three fields from left to right, and the list
  comprehension stops at the first item that raises.
\<close>

definition format_item :: "env \<Rightarrow> json \<Rightarrow> exn + ustr" where
  "format_item w item =
     (case subscript item (u ''title'') of
        Inl e \<Rightarrow> Inl e
      | Inr title \<Rightarrow>
          (case subscript item (u ''snippet'') of
             Inl e \<Rightarrow> Inl e
           | Inr snippet \<Rightarrow>
               (case subscript item (u ''link'') of
                  Inl e \<Rightarrow> Inl e
                | Inr link \<Rightarrow>
                    Inr (py_format w title @ [0xA] @ py_format w snippet @ [0xA]
                           @ py_format w link))))"

fun format_results :: "env \<Rightarrow> json list \<Rightarrow> exn + ustr list" where
  "format_results w [] = Inr []"
| "format_results w (item # rest) =
     (case format_item w item of
        Inl e \<Rightarrow> Inl e
      | Inr r \<Rightarrow>
          (case format_results w rest of
             Inl e \<Rightarrow> Inl e
           | Inr rs \<Rightarrow> Inr (r # rs)))"

definition search_error_text :: "int \<Rightarrow> ustr" where
  "search_error_text status = u ''Search error: HTTP '' @ str_int status"

definition no_results_text :: ustr where
  "no_results_text = u ''No results found.''"

definition google_search :: "env \<Rightarrow> ustr \<Rightarrow> exn + ustr" where
  "google_search w query =
     (case search_get w query of
        Transport_error e \<Rightarrow> Inl e
      | Response status body \<Rightarrow>
          if status \<noteq> 200 then Inr (search_error_text status)
          else
            (case body of
               Inl e \<Rightarrow> Inl e
             | Inr data \<Rightarrow>
                 (case dict_get data (u ''items'') (JArr []) of
                    Inl e \<Rightarrow> Inl e
                  | Inr items \<Rightarrow>
                      if \<not> truthy items then Inr no_results_text
                      else
                        (case iterate items of
                           Inl e \<Rightarrow> Inl e
                         | Inr its \<Rightarrow>
                             (case format_results w its of
                                Inl e \<Rightarrow> Inl e
                              | Inr results \<Rightarrow> Inr (join [0xA, 0xA] results))))))"

text \<open>
  \<^verbatim>\<open>fetch_joke\<close>: \<^verbatim>\<open>data.get('setup')\<close> has no default, so a missing field is
  \<^verbatim>\<open>None\<close>, which the f-string renders as the text None.
\<close>

definition joke_failed_text :: ustr where
  "joke_failed_text = [0x274C] @ u '' Failed to fetch a joke.''"

definition fetch_joke :: "env \<Rightarrow> exn + ustr" where
  "fetch_joke w =
     (case joke_get w of
        Transport_error e \<Rightarrow> Inl e
      | Response status body \<Rightarrow>
          if status \<noteq> 200 then Inr joke_failed_text
          else
            (case body of
               Inl e \<Rightarrow> Inl e
             | Inr data \<Rightarrow>
                 (case dict_get data (u ''setup'') JNull of
                    Inl e \<Rightarrow> Inl e
                  | Inr setup \<Rightarrow>
                      (case dict_get data (u ''punchline'') JNull of
                         Inl e \<Rightarrow> Inl e
                       | Inr punchline \<Rightarrow>
                           Inr (py_format w setup @ [0xA] @ py_format w punchline)))))"

section \<open>The message handler\<close>

text \<open>
  What one run of \<^verbatim>\<open>handle_message\<close> does, in order: each \<^verbatim>\<open>message.answer\<close> is
  an \<open>Answer\<close>, and each call of a handler is recorded with its argument. A run ends by
  returning (\<open>None\<close>) or with the exception that leaves it (\<open>Some e\<close>). Sending a reply
  is taken to succeed.
\<close>

datatype event =
    Answer ustr
  | Called_google_search ustr
  | Called_sympify ustr
  | Called_fetch_joke
  | Called_chat_with_vertex_ai ustr

type_synonym run = "event list \<times> exn option"

definition welcome_text :: ustr where
  "welcome_text =
     [0x1F44B] @ u '' Hi! I'' @ [0x27] @ u ''m a bot powered by Vertex AI (Gemini).'' @ [0xA, 0xA]
     @ u ''Try:'' @ [0xA]
     @ u ''- search: Python '' @ [0x2192] @ u '' Google search'' @ [0xA]
     @ u ''- solve: 2+2*5 '' @ [0x2192] @ u '' Math calculation'' @ [0xA]
     @ u ''- joke '' @ [0x2192] @ u '' Get a random joke'' @ [0xA]
     @ u ''- chat: Tell me something about AI '' @ [0x2192] @ u '' Gemini response''"

definition help_text :: ustr where
  "help_text =
     u ''Available commands:'' @ [0xA] @ u ''- search:<query>'' @ [0xA]
     @ u ''- solve:<expression>'' @ [0xA] @ u ''- joke'' @ [0xA] @ u ''- chat:<message>''"

definition searching_text :: ustr where
  "searching_text = [0x1F50D] @ u '' Searching...''"

definition invalid_expression_text :: ustr where
  "invalid_expression_text = [0x274C] @ u '' Invalid mathematical expression.''"

definition prompt_required_text :: ustr where
  "prompt_required_text =
     u ''Please enter a message after '' @ [0x27] @ u ''chat:'' @ [0x27] @ u ''.''"

definition thinking_text :: ustr where
  "thinking_text = [0x1F916] @ u '' Thinking...''"

definition unknown_text :: ustr where
  "unknown_text = u ''Unknown command. Type /help to see available options.''"

text \<open>The bodies of the four branches that call a handler (lines 96-100, 103-109, 112-114, 117-124).\<close>

definition search_branch :: "env \<Rightarrow> ustr \<Rightarrow> run" where
  "search_branch w query =
     (case google_search w query of
        Inl e \<Rightarrow> ([Answer searching_text, Called_google_search query], Some e)
      | Inr result \<Rightarrow>
          ([Answer searching_text, Called_google_search query, Answer result], None))"

text \<open>Only \<^verbatim>\<open>SympifyError\<close> is caught; any other exception leaves the handler.\<close>

definition solve_branch :: "env \<Rightarrow> ustr \<Rightarrow> run" where
  "solve_branch w expression =
     (case sympify_evalf w expression of
        Inr result \<Rightarrow> ([Called_sympify expression, Answer (u ''Result: '' @ result)], None)
      | Inl e \<Rightarrow>
          if e = SympifyError
          then ([Called_sympify expression, Answer invalid_expression_text], None)
          else ([Called_sympify expression], Some e))"

definition joke_branch :: "env \<Rightarrow> run" where
  "joke_branch w =
     (case fetch_joke w of
        Inl e \<Rightarrow> ([Called_fetch_joke], Some e)
      | Inr joke \<Rightarrow> ([Called_fetch_joke, Answer joke], None))"

definition chat_branch :: "env \<Rightarrow> ustr \<Rightarrow> run" where
  "chat_branch w prompt =
     (if prompt = [] then ([Answer prompt_required_text], None)
      else ([Answer thinking_text, Called_chat_with_vertex_ai prompt,
             Answer (chat_with_vertex_ai w prompt)], None))"

definition handle_message :: "env \<Rightarrow> ustr \<Rightarrow> run" where
  "handle_message w message_text =
     (let text = py_strip message_text in
      if py_lower text \<in> set [u ''/start'', u ''hi'', u ''hello'']
      then ([Answer welcome_text], None)
      else if py_lower text = u ''/help''
      then ([Answer help_text], None)
      else if startswith (py_lower text) (u ''search:'')
      then search_branch w (py_strip (drop 7 text))
      else if startswith (py_lower text) (u ''solve:'')
      then solve_branch w (py_strip (drop 6 text))
      else if py_lower text = u ''joke''
      then joke_branch w
      else if startswith (py_lower text) (u ''chat:'')
      then chat_branch w (py_strip (drop 5 text))
      else ([Answer unknown_text], None))"

text \<open>The replies of a run, in the order in which the chat receives them.\<close>

fun replies :: "event list \<Rightarrow> ustr list" where
  "replies [] = []"
| "replies (Answer s # es) = s # replies es"
| "replies (e # es) = replies es"

section \<open>The classifier of the specification\<close>

text \<open>
  The specification describes \<^verbatim>\<open>handle_message\<close> in two stages: a classifier from the
  text to a command by seven rules in a fixed order, and a dispatcher. \<open>classify\<close> follows
  the wording of the specification: the text is trimmed, compared without regard to case
  either as a whole (\<open>ci_equals\<close>) or on the prefix that has the length of the keyword
  (\<open>ci_prefix\<close>), and the payload is the remainder after that prefix, trimmed.
\<close>

datatype Command =
    Greeting
  | Help
  | Search ustr
  | Solve ustr
  | Joke
  | Chat ustr
  | Unknown ustr

definition ci_equals :: "ustr \<Rightarrow> ustr \<Rightarrow> bool" where
  "ci_equals t keyword = (py_lower t = keyword)"

definition ci_prefix :: "ustr \<Rightarrow> ustr \<Rightarrow> bool" where
  "ci_prefix t keyword = (py_lower (take (length keyword) t) = keyword)"

definition remainder :: "ustr \<Rightarrow> ustr \<Rightarrow> ustr" where
  "remainder t keyword = py_strip (drop (length keyword) t)"

definition classify :: "ustr \<Rightarrow> Command" where
  "classify raw =
     (let t = py_strip raw in
      if ci_equals t (u ''/start'') \<or> ci_equals t (u ''hi'') \<or> ci_equals t (u ''hello'')
      then Greeting
      else if ci_equals t (u ''/help'') then Help
      else if ci_prefix t (u ''search:'') then Search (remainder t (u ''search:''))
      else if ci_prefix t (u ''solve:'') then Solve (remainder t (u ''solve:''))
      else if ci_equals t (u ''joke'') then Joke
      else if ci_prefix t (u ''chat:'') then Chat (remainder t (u ''chat:''))
      else Unknown raw)"

text \<open>What \<^verbatim>\<open>handle_message\<close> does in the branch of each command.\<close>

fun run_command :: "env \<Rightarrow> Command \<Rightarrow> run" where
  "run_command w Greeting = ([Answer welcome_text], None)"
| "run_command w Help = ([Answer help_text], None)"
| "run_command w (Search query) = search_branch w query"
| "run_command w (Solve expression) = solve_branch w expression"
| "run_command w Joke = joke_branch w"
| "run_command w (Chat prompt) = chat_branch w prompt"
| "run_command w (Unknown raw) = ([Answer unknown_text], None)"

section \<open>Two concrete environments\<close>

text \<open>
  Environments on which the handlers can be run. In both, the evaluator answers as sympy
  does on the expressions used below: \<^verbatim>\<open>2+2*5\<close> evaluates to a float that prints with
  fifteen significant digits, \<^verbatim>\<open>[1,2]\<close> parses to a list, which has no \<^verbatim>\<open>evalf\<close>
  (\<^verbatim>\<open>AttributeError\<close>), and \<^verbatim>\<open>2+\<close> and the empty string do not parse
  (\<^verbatim>\<open>SympifyError\<close>, which this evaluator gives for every other expression too).
  In \<open>good_env\<close> the services answer 200 with every field present.
\<close>

definition good_env :: env where
  "good_env =
     \<lparr> sympify_evalf =
         (\<lambda>e. if e = u ''2+2*5'' then Inr (u ''12.0000000000000'')
              else if e = u ''[1,2]'' then Inl AttributeError
              else Inl SympifyError),
       search_get =
         (\<lambda>q. Response 200
                 (Inr (JObj [(u ''items'',
                    JArr [JObj [(u ''title'', JStr (u ''T'')), (u ''snippet'', JStr (u ''S'')),
                                (u ''link'', JStr (u ''L''))]])]))),
       joke_get =
         Response 200 (Inr (JObj [(u ''setup'', JStr (u ''a'')), (u ''punchline'', JStr (u ''b''))])),
       predict = (\<lambda>p. Inr [[(u ''content'', u ''Hello!'')]]),
       py_repr = (\<lambda>v. []),
       exn_text = (\<lambda>e. []) \<rparr>"

text \<open>
  In \<open>faulty_env\<close> both services still answer 200, but the one search result has no
  title and the joke has no setup.
\<close>

definition faulty_env :: env where
  "faulty_env =
     good_env
       \<lparr> search_get :=
           (\<lambda>q. Response 200
                   (Inr (JObj [(u ''items'',
                      JArr [JObj [(u ''snippet'', JStr (u ''S'')), (u ''link'', JStr (u ''L''))]])]))),
         joke_get := Response 200 (Inr (JObj [(u ''punchline'', JStr (u ''b''))])) \<rparr>"

section \<open>Lowering, prefixes and trimming\<close>

lemma py_lower_append: "py_lower (a @ b) = py_lower a @ py_lower b"
  by (simp add: py_lower_def)

lemma py_lower_Cons: "py_lower (c # t) = lower_cp c @ py_lower t"
  by (simp add: py_lower_def)

lemma lower_cp_cases: "lower_cp c = [0x69, 0x307] \<or> (\<exists>y. lower_cp c = [y])"
  by (simp add: lower_cp_def)

lemma startswith_lower_take:
  "0x69 \<notin> set p \<Longrightarrow> startswith (py_lower t) p \<Longrightarrow> py_lower (take (length p) t) = p"
proof (induction p arbitrary: t)
  case Nil
  then show ?case by (simp add: py_lower_def)
next
  case (Cons x p)
  show ?case
  proof (cases t)
    case Nil
    with Cons.prems show ?thesis by (simp add: startswith_def py_lower_def)
  next
    case (Cons c t')
    from lower_cp_cases [of c] show ?thesis
    proof
      assume "lower_cp c = [0x69, 0x307]"
      with Cons.prems Cons show ?thesis
        by (simp add: startswith_def py_lower_Cons)
    next
      assume "\<exists>y. lower_cp c = [y]"
      then obtain y where y: "lower_cp c = [y]" ..
      from Cons.prems(2) Cons y have "y = x" and "startswith (py_lower t') p"
        by (simp_all add: startswith_def py_lower_Cons)
      moreover from Cons.prems(1) have "0x69 \<notin> set p" by simp
      ultimately have "py_lower (take (length p) t') = p"
        using Cons.IH by blast
      with y \<open>y = x\<close> Cons show ?thesis
        by (simp add: py_lower_Cons)
    qed
  qed
qed

lemma lower_take_startswith:
  assumes "py_lower (take (length p) t) = p"
  shows "startswith (py_lower t) p"
proof -
  have "py_lower t = py_lower (take (length p) t) @ py_lower (drop (length p) t)"
    by (simp add: py_lower_append [symmetric])
  with assms show ?thesis by (simp add: startswith_def)
qed

lemma ci_prefix_iff:
  "0x69 \<notin> set p \<Longrightarrow> ci_prefix t p \<longleftrightarrow> startswith (py_lower t) p"
  unfolding ci_prefix_def
  using startswith_lower_take lower_take_startswith by blast

lemma ci_prefix_search: "ci_prefix t (u ''search:'') \<longleftrightarrow> startswith (py_lower t) (u ''search:'')"
  by (rule ci_prefix_iff) (simp add: u_def)
lemma ci_prefix_solve: "ci_prefix t (u ''solve:'') \<longleftrightarrow> startswith (py_lower t) (u ''solve:'')"
  by (rule ci_prefix_iff) (simp add: u_def)
lemma ci_prefix_chat: "ci_prefix t (u ''chat:'') \<longleftrightarrow> startswith (py_lower t) (u ''chat:'')"
  by (rule ci_prefix_iff) (simp add: u_def)

lemma length_keywords:
  "length (u ''search:'') = 7" "length (u ''solve:'') = 6" "length (u ''chat:'') = 5"
  by (simp_all add: u_def)

lemma handle_message_run_command: "handle_message w raw = run_command w (classify raw)"
  by (simp add: handle_message_def classify_def Let_def ci_equals_def remainder_def
      ci_prefix_search ci_prefix_solve ci_prefix_chat length_keywords)

section \<open>Which branch runs\<close>

lemma startswith_iff: "startswith l p \<longleftrightarrow> (\<exists>r. l = p @ r)"
  unfolding startswith_def by (metis append_eq_conv_conj append_take_drop_id)

lemma search_prefix_branch:
  assumes "startswith (py_lower (py_strip raw)) (u ''search:'')"
  shows "handle_message w raw = search_branch w (py_strip (drop 7 (py_strip raw)))"
proof -
  from assms obtain r where "py_lower (py_strip raw) = u ''search:'' @ r"
    by (auto simp add: startswith_iff)
  then show ?thesis
    by (simp add: handle_message_def Let_def startswith_def u_def)
qed

lemma solve_prefix_branch:
  assumes "startswith (py_lower (py_strip raw)) (u ''solve:'')"
  shows "handle_message w raw = solve_branch w (py_strip (drop 6 (py_strip raw)))"
proof -
  from assms obtain r where "py_lower (py_strip raw) = u ''solve:'' @ r"
    by (auto simp add: startswith_iff)
  then show ?thesis
    by (simp add: handle_message_def Let_def startswith_def u_def)
qed

lemma chat_prefix_branch:
  assumes "startswith (py_lower (py_strip raw)) (u ''chat:'')"
  shows "handle_message w raw = chat_branch w (py_strip (drop 5 (py_strip raw)))"
proof -
  from assms obtain r where "py_lower (py_strip raw) = u ''chat:'' @ r"
    by (auto simp add: startswith_iff)
  then show ?thesis
    by (simp add: handle_message_def Let_def startswith_def u_def)
qed

lemma py_strip_infix: "\<exists>a b. s = a @ py_strip s @ b"
proof -
  let ?d = "dropWhile py_isspace s"
  have "s = takeWhile py_isspace s @ ?d" by simp
  moreover have "?d = rev (dropWhile py_isspace (rev ?d)) @ rev (takeWhile py_isspace (rev ?d))"
    by (metis rev_append rev_rev_ident takeWhile_dropWhile_id)
  ultimately have "s = takeWhile py_isspace s @ py_strip s @ rev (takeWhile py_isspace (rev ?d))"
    by (simp add: py_strip_def)
  then show ?thesis by blast
qed

lemma slice_infix: "\<exists>a b. raw = a @ py_strip (drop n (py_strip raw)) @ b"
proof -
  obtain a b where 1: "raw = a @ py_strip raw @ b" using py_strip_infix by blast
  obtain c d where 2: "drop n (py_strip raw) = c @ py_strip (drop n (py_strip raw)) @ d"
    using py_strip_infix by blast
  have "py_strip raw = take n (py_strip raw) @ drop n (py_strip raw)" by simp
  with 2 have "py_strip raw = (take n (py_strip raw) @ c) @ py_strip (drop n (py_strip raw)) @ d"
    by simp
  with 1 have "raw = (a @ take n (py_strip raw) @ c) @ py_strip (drop n (py_strip raw)) @ (d @ b)"
    by (metis append.assoc)
  then show ?thesis by blast
qed

lemma called_google_search_iff:
  "Called_google_search q \<in> set (fst (handle_message w raw)) \<longleftrightarrow>
     startswith (py_lower (py_strip raw)) (u ''search:'') \<and> q = py_strip (drop 7 (py_strip raw))"
  by (auto simp add: handle_message_def Let_def search_branch_def solve_branch_def
      joke_branch_def chat_branch_def startswith_def u_def split: sum.splits)

lemma called_sympify_branches:
  "Called_sympify e \<notin> set (fst (search_branch w q))"
  "Called_sympify e \<in> set (fst (solve_branch w x)) \<longleftrightarrow> e = x"
  "Called_sympify e \<notin> set (fst (joke_branch w))"
  "Called_sympify e \<notin> set (fst (chat_branch w p))"
  by (auto simp add: search_branch_def solve_branch_def joke_branch_def chat_branch_def
      split: sum.splits)

lemma called_chat_branches:
  "Called_chat_with_vertex_ai p \<notin> set (fst (search_branch w q))"
  "Called_chat_with_vertex_ai p \<notin> set (fst (solve_branch w x))"
  "Called_chat_with_vertex_ai p \<notin> set (fst (joke_branch w))"
  "Called_chat_with_vertex_ai p \<in> set (fst (chat_branch w p')) \<longleftrightarrow> p = p' \<and> p \<noteq> []"
  by (auto simp add: search_branch_def solve_branch_def joke_branch_def chat_branch_def
      split: sum.splits)

lemma called_sympify_iff:
  "Called_sympify e \<in> set (fst (handle_message w raw)) \<longleftrightarrow>
     startswith (py_lower (py_strip raw)) (u ''solve:'') \<and> e = py_strip (drop 6 (py_strip raw))"
proof (cases "startswith (py_lower (py_strip raw)) (u ''solve:'')")
  case True
  then show ?thesis
    by (simp add: solve_prefix_branch called_sympify_branches)
next
  case False
  then show ?thesis
    by (simp add: handle_message_def Let_def called_sympify_branches)
qed

lemma called_chat_iff:
  "Called_chat_with_vertex_ai p \<in> set (fst (handle_message w raw)) \<longleftrightarrow>
     startswith (py_lower (py_strip raw)) (u ''chat:'') \<and> p = py_strip (drop 5 (py_strip raw))
     \<and> p \<noteq> []"
proof (cases "startswith (py_lower (py_strip raw)) (u ''chat:'')")
  case True
  then show ?thesis
    by (auto simp add: chat_prefix_branch called_chat_branches)
next
  case False
  then show ?thesis
    by (simp add: handle_message_def Let_def called_chat_branches)
qed

lemma length_py_lower: "0x69 \<notin> set (py_lower s) \<Longrightarrow> length (py_lower s) = length s"
proof (induction s)
  case Nil
  then show ?case by (simp add: py_lower_def)
next
  case (Cons c s)
  from lower_cp_cases [of c] Cons show ?case
    by (auto simp add: py_lower_Cons)
qed

lemma matched_prefix:
  assumes "py_lower pre = k" and "0x69 \<notin> set k"
  shows "startswith (py_lower (pre @ rest)) k" and "drop (length k) (pre @ rest) = rest"
proof -
  from assms have "length k = length pre" using length_py_lower by auto
  then show "drop (length k) (pre @ rest) = rest" by simp
  from assms(1) show "startswith (py_lower (pre @ rest)) k"
    by (simp add: startswith_def py_lower_append)
qed

section \<open>Evaluation on the concrete environments\<close>

lemmas eval_text = u_def py_strip_def py_isspace_def py_lower_def lower_cp_def startswith_def

lemma google_search_good_env: "google_search good_env q = Inr (u ''T'' @ [0xA] @ u ''S'' @ [0xA] @ u ''L'')"
  by (simp add: google_search_def good_env_def format_item_def u_def)

lemma chat_good_env: "chat_with_vertex_ai good_env p = u ''Hello!''"
  by (simp add: chat_with_vertex_ai_def good_env_def u_def)

lemma solve_list_run:
  "handle_message good_env (u ''solve: [1,2]'') =
     ([Called_sympify (u ''[1,2]'')], Some AttributeError)"
proof -
  have a: "startswith (py_lower (py_strip (u ''solve: [1,2]''))) (u ''solve:'')"
    by (simp add: eval_text)
  have b: "py_strip (drop 6 (py_strip (u ''solve: [1,2]''))) = u ''[1,2]''"
    by (simp add: eval_text)
  have c: "sympify_evalf good_env (u ''[1,2]'') = Inl AttributeError"
    by (simp add: good_env_def u_def)
  show ?thesis
    by (simp add: solve_prefix_branch [OF a] b solve_branch_def c)
qed

lemma solve_examples_run:
  "handle_message good_env (u ''solve: 2+2*5'') =
     ([Called_sympify (u ''2+2*5''), Answer (u ''Result: 12.0000000000000'')], None)"
  "handle_message good_env (u ''solve: 2+'') =
     ([Called_sympify (u ''2+''), Answer invalid_expression_text], None)"
proof -
  have a: "startswith (py_lower (py_strip (u ''solve: 2+2*5''))) (u ''solve:'')"
    by (simp add: eval_text)
  have b: "py_strip (drop 6 (py_strip (u ''solve: 2+2*5''))) = u ''2+2*5''"
    by (simp add: eval_text)
  have c: "sympify_evalf good_env (u ''2+2*5'') = Inr (u ''12.0000000000000'')"
    by (simp add: good_env_def u_def)
  show "handle_message good_env (u ''solve: 2+2*5'') =
     ([Called_sympify (u ''2+2*5''), Answer (u ''Result: 12.0000000000000'')], None)"
    by (simp add: solve_prefix_branch [OF a] b solve_branch_def c) (simp add: u_def)
  have a': "startswith (py_lower (py_strip (u ''solve: 2+''))) (u ''solve:'')"
    by (simp add: eval_text)
  have b': "py_strip (drop 6 (py_strip (u ''solve: 2+''))) = u ''2+''"
    by (simp add: eval_text)
  have c': "sympify_evalf good_env (u ''2+'') = Inl SympifyError"
    by (simp add: good_env_def u_def)
  show "handle_message good_env (u ''solve: 2+'') =
     ([Called_sympify (u ''2+''), Answer invalid_expression_text], None)"
    by (simp add: solve_prefix_branch [OF a'] b' solve_branch_def c')
qed

lemma search_faulty_result:
  "google_search faulty_env (u ''python'') = Inl (KeyError (u ''title''))"
  by (simp add: google_search_def faulty_env_def good_env_def format_item_def u_def)

lemma search_faulty_run:
  "handle_message faulty_env (u ''search: python'') =
     ([Answer searching_text, Called_google_search (u ''python'')], Some (KeyError (u ''title'')))"
proof -
  have a: "startswith (py_lower (py_strip (u ''search: python''))) (u ''search:'')"
    by (simp add: eval_text)
  have b: "py_strip (drop 7 (py_strip (u ''search: python''))) = u ''python''"
    by (simp add: eval_text)
  show ?thesis
    by (simp add: search_prefix_branch [OF a] b search_branch_def search_faulty_result)
qed

section \<open>What holds on the paths that return\<close>

lemma replies_at_most_two: "length (replies (fst (handle_message w raw))) \<le> 2"
  by (cases "classify raw")
    (simp_all add: handle_message_run_command search_branch_def solve_branch_def
      joke_branch_def chat_branch_def split: sum.splits)

lemma replies_when_returning:
  assumes "snd (handle_message w raw) = None"
  shows "length (replies (fst (handle_message w raw))) =
    (case classify raw of Search q \<Rightarrow> 2 | Chat p \<Rightarrow> (if p = [] then 1 else 2) | _ \<Rightarrow> 1)"
  using assms by (cases "classify raw")
    (auto simp add: handle_message_run_command search_branch_def solve_branch_def
      joke_branch_def chat_branch_def split: sum.splits if_splits)

lemma google_search_non_200:
  assumes "search_get w q = Response status body" and "status \<noteq> 200"
  shows "google_search w q = Inr (u ''Search error: HTTP '' @ str_int status)"
  using assms by (simp add: google_search_def search_error_text_def)

lemma str_int_403: "str_int 403 = u ''403''"
  by (simp add: str_int_def digits.simps u_def)

lemma solve_parse_failure:
  assumes "sympify_evalf w e = Inl SympifyError"
  shows "solve_branch w e = ([Called_sympify e, Answer invalid_expression_text], None)"
  using assms by (simp add: solve_branch_def)

lemma fetch_joke_both_fields:
  assumes "joke_get w = Response 200 (Inr (JObj kvs))"
    and "map_of kvs (u ''setup'') = Some (JStr a)"
    and "map_of kvs (u ''punchline'') = Some (JStr b)"
  shows "fetch_joke w = Inr (a @ [0xA] @ b)"
  using assms by (simp add: fetch_joke_def)

section \<open>The classifier\<close>

text \<open>
  Claim C1. For every environment and every text, \<^verbatim>\<open>handle_message\<close> does what the
  branch of exactly one command does, and that command is the one the classifier of the
  specification computes: the seven rules, tested in their order on the trimmed text,
  compared without regard to case, with the payload taken after the keyword and trimmed.
  Both sides are total functions of the text, so the same text always gives the same
  command with the same payload.
\<close>

theorem handle_message_classifies: "handle_message w raw = run_command w (classify raw)"
  by (rule handle_message_run_command)

section \<open>The solve branch\<close>

text \<open>
  Claim C2. The claim says that no error ever leaves the solve branch. The branch catches
  \<^verbatim>\<open>SympifyError\<close> only (\<open>solve_parse_failure\<close>, \<open>solve_examples_run\<close>): on the text
  \<^verbatim>\<open>solve: [1,2]\<close> the evaluator raises \<^verbatim>\<open>AttributeError\<close>, which leaves
  \<^verbatim>\<open>handle_message\<close>, and no reply is sent.
\<close>

theorem solve_unhandled_error:
  "snd (handle_message good_env (u ''solve: [1,2]'')) = Some AttributeError
   \<and> fst (handle_message good_env (u ''solve: [1,2]'')) = [Called_sympify (u ''[1,2]'')]"
  by (simp add: solve_list_run)

section \<open>The search handler\<close>

text \<open>
  Claim C3. The claim says that \<^verbatim>\<open>google_search\<close> never raises. A status other than
  200 does give a string with the status (\<open>google_search_non_200\<close>), but nothing in the
  function catches an exception: on a 200 response whose one item has no title,
  \<^verbatim>\<open>item['title']\<close> raises \<^verbatim>\<open>KeyError\<close> and the function ends with it.
\<close>

theorem search_missing_title_raises:
  "google_search faulty_env (u ''python'') = Inl (KeyError (u ''title''))"
  by (rule search_faulty_result)

section \<open>Order of the replies\<close>

text \<open>
  Claim C4. When the trimmed text starts with \<^verbatim>\<open>search:\<close> (in any case), the run is:
  the reply "Searching...", then the call of \<^verbatim>\<open>google_search\<close>, then the reply with
  its result if it returns one. When it starts with \<^verbatim>\<open>chat:\<close> and the prompt is not
  empty, the run is: the reply "Thinking...", then the call of \<^verbatim>\<open>chat_with_vertex_ai\<close>,
  then the reply with its result. So the acknowledgement is a reply of its own and comes
  before the result in the order in which the chat receives them.
\<close>

theorem acknowledgement_before_result:
  "(startswith (py_lower (py_strip raw)) (u ''search:'') \<longrightarrow>
      fst (handle_message w raw) =
        Answer searching_text # Called_google_search (py_strip (drop 7 (py_strip raw)))
          # (case google_search w (py_strip (drop 7 (py_strip raw))) of
               Inl e \<Rightarrow> []
             | Inr result \<Rightarrow> [Answer result]))
   \<and> (startswith (py_lower (py_strip raw)) (u ''chat:'') \<and> py_strip (drop 5 (py_strip raw)) \<noteq> [] \<longrightarrow>
      handle_message w raw =
        ([Answer thinking_text, Called_chat_with_vertex_ai (py_strip (drop 5 (py_strip raw))),
          Answer (chat_with_vertex_ai w (py_strip (drop 5 (py_strip raw))))], None))"
  by (simp add: search_prefix_branch chat_prefix_branch search_branch_def chat_branch_def
      split: sum.splits)

theorem acknowledgement_before_result_witness:
  "startswith (py_lower (py_strip (u ''search: cats''))) (u ''search:'')
   \<and> fst (handle_message good_env (u ''search: cats'')) =
       [Answer searching_text, Called_google_search (u ''cats''),
        Answer (u ''T'' @ [0xA] @ u ''S'' @ [0xA] @ u ''L'')]
   \<and> startswith (py_lower (py_strip (u ''Chat: hello''))) (u ''chat:'')
   \<and> py_strip (drop 5 (py_strip (u ''Chat: hello''))) \<noteq> []
   \<and> handle_message good_env (u ''Chat: hello'') =
       ([Answer thinking_text, Called_chat_with_vertex_ai (u ''hello''), Answer (u ''Hello!'')], None)"
proof -
  have a: "startswith (py_lower (py_strip (u ''search: cats''))) (u ''search:'')"
    by (simp add: eval_text)
  have b: "startswith (py_lower (py_strip (u ''Chat: hello''))) (u ''chat:'')"
    by (simp add: eval_text)
  have c: "py_strip (drop 5 (py_strip (u ''Chat: hello''))) = u ''hello''"
    by (simp add: eval_text)
  have d: "py_strip (drop 7 (py_strip (u ''search: cats''))) = u ''cats''"
    by (simp add: eval_text)
  have e: "u ''hello'' \<noteq> []" by (simp add: u_def)
  from a b e acknowledgement_before_result [of "u ''search: cats''" good_env]
    acknowledgement_before_result [of "u ''Chat: hello''" good_env]
  show ?thesis
    by (simp add: c d google_search_good_env chat_good_env)
qed

section \<open>The payload\<close>

text \<open>
  Claim C5. Whenever the trimmed text splits into a prefix that lowers to \<^verbatim>\<open>search:\<close>,
  \<^verbatim>\<open>solve:\<close> or \<^verbatim>\<open>chat:\<close> and a remainder, \<^verbatim>\<open>handle_message\<close> runs the branch
  of that keyword on the remainder with the whitespace at both ends removed; the text
  \<^verbatim>\<open>search:  python \<close> runs the search branch on \<^verbatim>\<open>python\<close>.
\<close>

theorem payload_is_trimmed_remainder:
  assumes "py_strip raw = pre @ rest"
  shows "(py_lower pre = u ''search:'' \<longrightarrow> handle_message w raw = search_branch w (py_strip rest))
    \<and> (py_lower pre = u ''solve:'' \<longrightarrow> handle_message w raw = solve_branch w (py_strip rest))
    \<and> (py_lower pre = u ''chat:'' \<longrightarrow> handle_message w raw = chat_branch w (py_strip rest))
    \<and> handle_message w (u ''search:  python '') = search_branch w (u ''python'')"
proof (intro conjI impI)
  assume k: "py_lower pre = u ''search:''"
  have "0x69 \<notin> set (u ''search:'')" by (simp add: u_def)
  from matched_prefix [OF k this, of rest] assms search_prefix_branch [of raw w]
  show "handle_message w raw = search_branch w (py_strip rest)"
    by (simp add: length_keywords)
next
  assume k: "py_lower pre = u ''solve:''"
  have "0x69 \<notin> set (u ''solve:'')" by (simp add: u_def)
  from matched_prefix [OF k this, of rest] assms solve_prefix_branch [of raw w]
  show "handle_message w raw = solve_branch w (py_strip rest)"
    by (simp add: length_keywords)
next
  assume k: "py_lower pre = u ''chat:''"
  have "0x69 \<notin> set (u ''chat:'')" by (simp add: u_def)
  from matched_prefix [OF k this, of rest] assms chat_prefix_branch [of raw w]
  show "handle_message w raw = chat_branch w (py_strip rest)"
    by (simp add: length_keywords)
next
  show "handle_message w (u ''search:  python '') = search_branch w (u ''python'')"
    by (simp add: handle_message_def Let_def startswith_def u_def py_strip_def py_isspace_def
        py_lower_def lower_cp_def)
qed

theorem payload_is_trimmed_remainder_witness:
  "py_strip (u '' Search: Cats '') = u ''Search:'' @ u '' Cats''
   \<and> py_lower (u ''Search:'') = u ''search:''
   \<and> handle_message good_env (u '' Search: Cats '') = search_branch good_env (u ''Cats'')
   \<and> py_strip (u ''SOLVE:1 + 1'') = u ''SOLVE:'' @ u ''1 + 1''
   \<and> py_lower (u ''SOLVE:'') = u ''solve:''
   \<and> handle_message good_env (u ''SOLVE:1 + 1'') = solve_branch good_env (u ''1 + 1'')
   \<and> py_strip (u ''chat:  Hi'') = u ''chat:'' @ u ''  Hi''
   \<and> py_lower (u ''chat:'') = u ''chat:''
   \<and> handle_message good_env (u ''chat:  Hi'') = chat_branch good_env (u ''Hi'')"
  using payload_is_trimmed_remainder [of "u '' Search: Cats ''" "u ''Search:''" "u '' Cats''" good_env]
    payload_is_trimmed_remainder [of "u ''SOLVE:1 + 1''" "u ''SOLVE:''" "u ''1 + 1''" good_env]
    payload_is_trimmed_remainder [of "u ''chat:  Hi''" "u ''chat:''" "u ''  Hi''" good_env]
  by (simp add: eval_text)

text \<open>
  Claim C9. The argument with which a handler is called is a slice of the trimmed original
  text, not of its lowered copy: it occurs in the original text as it stands, with the case
  of its letters; \<^verbatim>\<open>CHAT: Hello World\<close> calls the chat handler with \<^verbatim>\<open>Hello World\<close>.
\<close>

theorem payload_keeps_original_case:
  "(Called_google_search q \<in> set (fst (handle_message w raw)) \<longrightarrow>
      q = py_strip (drop 7 (py_strip raw)) \<and> (\<exists>a b. raw = a @ q @ b))
   \<and> (Called_sympify e \<in> set (fst (handle_message w raw)) \<longrightarrow>
      e = py_strip (drop 6 (py_strip raw)) \<and> (\<exists>a b. raw = a @ e @ b))
   \<and> (Called_chat_with_vertex_ai p \<in> set (fst (handle_message w raw)) \<longrightarrow>
      p = py_strip (drop 5 (py_strip raw)) \<and> (\<exists>a b. raw = a @ p @ b))
   \<and> Called_chat_with_vertex_ai (u ''Hello World'')
        \<in> set (fst (handle_message w (u ''CHAT: Hello World'')))"
proof (intro conjI impI)
  show "Called_chat_with_vertex_ai (u ''Hello World'')
        \<in> set (fst (handle_message w (u ''CHAT: Hello World'')))"
    by (simp add: called_chat_iff) (simp add: eval_text)
qed (simp_all add: called_google_search_iff called_sympify_iff called_chat_iff slice_infix)

theorem payload_keeps_original_case_witness:
  "Called_google_search (u ''Cats'') \<in> set (fst (handle_message good_env (u ''Search: Cats'')))
   \<and> u ''Cats'' = py_strip (drop 7 (py_strip (u ''Search: Cats'')))
   \<and> (\<exists>a b. u ''Search: Cats'' = a @ u ''Cats'' @ b)
   \<and> Called_sympify (u ''X+1'') \<in> set (fst (handle_message good_env (u ''Solve: X+1'')))
   \<and> u ''X+1'' = py_strip (drop 6 (py_strip (u ''Solve: X+1'')))
   \<and> (\<exists>a b. u ''Solve: X+1'' = a @ u ''X+1'' @ b)
   \<and> Called_chat_with_vertex_ai (u ''Hello World'')
        \<in> set (fst (handle_message good_env (u ''CHAT: Hello World'')))
   \<and> u ''Hello World'' = py_strip (drop 5 (py_strip (u ''CHAT: Hello World'')))
   \<and> (\<exists>a b. u ''CHAT: Hello World'' = a @ u ''Hello World'' @ b)"
proof -
  have 1: "Called_google_search (u ''Cats'') \<in> set (fst (handle_message good_env (u ''Search: Cats'')))"
    by (simp add: called_google_search_iff) (simp add: eval_text)
  have 2: "Called_sympify (u ''X+1'') \<in> set (fst (handle_message good_env (u ''Solve: X+1'')))"
    by (simp add: called_sympify_iff) (simp add: eval_text)
  have 3: "Called_chat_with_vertex_ai (u ''Hello World'')
        \<in> set (fst (handle_message good_env (u ''CHAT: Hello World'')))"
    by (simp add: called_chat_iff) (simp add: eval_text)
  from 1 2 3
    payload_keeps_original_case [of "u ''Cats''" good_env "u ''Search: Cats''"]
    payload_keeps_original_case [of _ good_env "u ''Solve: X+1''" "u ''X+1''"]
    payload_keeps_original_case [of _ good_env "u ''CHAT: Hello World''" _ "u ''Hello World''"]
  show ?thesis by blast
qed

section \<open>The joke handler\<close>

text \<open>
  Claim C6. The claim says that a field missing from a 200 response is rendered as an empty
  line. With both fields present the reply is the two joined by a newline
  (\<open>fetch_joke_both_fields\<close>), but \<^verbatim>\<open>data.get('setup')\<close> has no default: for a joke
  without setup the reply starts with the text None.
\<close>

theorem joke_missing_setup_renders_None:
  "fetch_joke faulty_env = Inr (u ''None'' @ [0xA] @ u ''b'')"
  by (simp add: fetch_joke_def faulty_env_def good_env_def u_def)

section \<open>Empty payloads\<close>

text \<open>
  Claim C7. When the trimmed text starts with \<^verbatim>\<open>chat:\<close> and nothing but whitespace
  follows, the whole run is the one reply that asks for a message: no acknowledgement, no
  call of \<^verbatim>\<open>chat_with_vertex_ai\<close>, and the handler returns.
\<close>

theorem empty_chat_prompt:
  assumes "startswith (py_lower (py_strip raw)) (u ''chat:'')"
    and "py_strip (drop 5 (py_strip raw)) = []"
  shows "handle_message w raw = ([Answer prompt_required_text], None)"
  using assms by (simp add: chat_prefix_branch chat_branch_def)

theorem empty_chat_prompt_witness:
  "startswith (py_lower (py_strip (u '' Chat:   ''))) (u ''chat:'')
   \<and> py_strip (drop 5 (py_strip (u '' Chat:   ''))) = []
   \<and> handle_message good_env (u '' Chat:   '') = ([Answer prompt_required_text], None)"
proof -
  have a: "startswith (py_lower (py_strip (u '' Chat:   ''))) (u ''chat:'')"
    by (simp add: eval_text)
  have b: "py_strip (drop 5 (py_strip (u '' Chat:   ''))) = []"
    by (simp add: eval_text)
  from a b empty_chat_prompt [OF a b, of good_env] show ?thesis by simp
qed

text \<open>
  Claim C10. When the trimmed text starts with \<^verbatim>\<open>solve:\<close> and nothing but whitespace
  follows, the branch has no guard: it first calls the evaluator on the empty expression.
  If the evaluator reports a parse failure for it, as sympy does, the run ends with the one
  reply that the expression is invalid, and the handler returns.
\<close>

theorem empty_solve_expression:
  assumes "startswith (py_lower (py_strip raw)) (u ''solve:'')"
    and "py_strip (drop 6 (py_strip raw)) = []"
  shows "(\<exists>rest. fst (handle_message w raw) = Called_sympify [] # rest)
    \<and> (sympify_evalf w [] = Inl SympifyError \<longrightarrow>
         handle_message w raw = ([Called_sympify [], Answer invalid_expression_text], None))"
  using assms by (simp add: solve_prefix_branch solve_branch_def split: sum.splits)

theorem empty_solve_expression_witness:
  "startswith (py_lower (py_strip (u ''solve:''))) (u ''solve:'')
   \<and> py_strip (drop 6 (py_strip (u ''solve:''))) = []
   \<and> sympify_evalf good_env [] = Inl SympifyError
   \<and> (\<exists>rest. fst (handle_message good_env (u ''solve:'')) = Called_sympify [] # rest)
   \<and> handle_message good_env (u ''solve:'') =
       ([Called_sympify [], Answer invalid_expression_text], None)"
proof -
  have a: "startswith (py_lower (py_strip (u ''solve:''))) (u ''solve:'')"
    by (simp add: eval_text)
  have b: "py_strip (drop 6 (py_strip (u ''solve:''))) = []"
    by (simp add: eval_text)
  have c: "sympify_evalf good_env [] = Inl SympifyError"
    by (simp add: good_env_def u_def)
  from a b c empty_solve_expression [OF a b, of good_env] show ?thesis by simp
qed

section \<open>Number of replies\<close>

text \<open>
  Claim C8. The claim says that every message gets one or two replies, two for a search and
  one for a solve. That holds for the runs that return (\<open>replies_when_returning\<close>), and
  no run has more than two (\<open>replies_at_most_two\<close>). The exceptions that the search
  handler and the solve branch let through end the run early: the search for
  \<^verbatim>\<open>python\<close> whose result has no title gets the acknowledgement only, and
  \<^verbatim>\<open>solve: [1,2]\<close> gets no reply at all.
\<close>

theorem uncaught_errors_drop_replies:
  "replies (fst (handle_message faulty_env (u ''search: python''))) = [searching_text]
   \<and> snd (handle_message faulty_env (u ''search: python'')) = Some (KeyError (u ''title''))
   \<and> replies (fst (handle_message good_env (u ''solve: [1,2]''))) = []
   \<and> snd (handle_message good_env (u ''solve: [1,2]'')) = Some AttributeError"
  by (simp add: search_faulty_run solve_list_run)

end
